theory Spec2Isabelle
  imports Complex_Main
begin

section \<open>Layer primitives of the framework, at the level of tensor shapes\<close>

text \<open>
  Both notebooks build a network from the layer primitives of the deep-learning framework
  (\<^verbatim>\<open>torch.nn\<close>) and call it on a random tensor. The values of a tensor are floating-point
  numbers drawn at random; what the notebooks record and what their comments speak about
  are shapes and parameter counts. A tensor is therefore represented by its shape, the
  list of its dimension sizes.

  A layer is the constructor call of the source with its keyword defaults written out:
  \<^verbatim>\<open>nn.Conv2d(3, 64, kernel_size=3, padding=1)\<close> has \<^verbatim>\<open>stride=1\<close> and \<^verbatim>\<open>groups=1\<close>,
  \<^verbatim>\<open>nn.MaxPool2d(kernel_size=2, stride=2)\<close> has \<^verbatim>\<open>padding=0\<close>, and every convolution and
  linear layer has \<^verbatim>\<open>bias=True\<close>.
\<close>

type_synonym shape = "nat list"

datatype layer =
    Conv2d (in_channels: nat) (out_channels: nat) (kernel_size: nat) (stride: nat)
      (padding: nat) (groups: nat)
  | ReLU
  | MaxPool2d (kernel_size: nat) (stride: nat)
  | Dropout rat
  | Linear (in_features: nat) (out_features: nat)
  | AdaptiveAvgPool2d (output_size: nat)

text \<open>
  The framework raises \<^verbatim>\<open>RuntimeError\<close> when a layer is called on a tensor it cannot
  take. The constructors below tell the causes apart.
\<close>

datatype error =
    RankError nat
  | ChannelMismatch nat nat
  | BadStride
  | KernelTooLarge
  | OutputTooSmall
  | EmptyInput
  | MatMulShape nat nat
  | AmbiguousView

text \<open>
  Size of one spatial dimension after a sliding window of size \<open>k\<close>, step \<open>s\<close> and
  zero padding \<open>p\<close> on both sides (dilation 1, rounding down):
  \<open>\<lfloor>(n + 2p - k) / s\<rfloor> + 1\<close>. The window must fit into the padded input.
\<close>

definition window_out :: "nat \<Rightarrow> nat \<Rightarrow> nat \<Rightarrow> nat \<Rightarrow> nat" where
  "window_out n k s p = (n + 2 * p - k) div s + 1"

definition conv2d_shape :: "nat \<Rightarrow> nat \<Rightarrow> nat \<Rightarrow> nat \<Rightarrow> nat \<Rightarrow> shape \<Rightarrow> error + shape" where
  "conv2d_shape cin cout k s p x =
     (case x of
        [n, c, h, w] \<Rightarrow>
          (if c \<noteq> cin then Inl (ChannelMismatch cin c)
           else if s = 0 then Inl BadStride
           else if h + 2 * p < k \<or> w + 2 * p < k then Inl KernelTooLarge
           else Inr [n, cout, window_out h k s p, window_out w k s p])
      | [c, h, w] \<Rightarrow>
          (if c \<noteq> cin then Inl (ChannelMismatch cin c)
           else if s = 0 then Inl BadStride
           else if h + 2 * p < k \<or> w + 2 * p < k then Inl KernelTooLarge
           else Inr [cout, window_out h k s p, window_out w k s p])
      | _ \<Rightarrow> Inl (RankError (length x)))"

definition maxpool2d_shape :: "nat \<Rightarrow> nat \<Rightarrow> shape \<Rightarrow> error + shape" where
  "maxpool2d_shape k s x =
     (case x of
        [n, c, h, w] \<Rightarrow>
          (if s = 0 then Inl BadStride
           else if c = 0 \<or> h = 0 \<or> w = 0 then Inl EmptyInput
           else if h < k \<or> w < k then Inl OutputTooSmall
           else Inr [n, c, window_out h k s 0, window_out w k s 0])
      | [c, h, w] \<Rightarrow>
          (if s = 0 then Inl BadStride
           else if h = 0 \<or> w = 0 then Inl EmptyInput
           else if h < k \<or> w < k then Inl OutputTooSmall
           else Inr [c, window_out h k s 0, window_out w k s 0])
      | _ \<Rightarrow> Inl (RankError (length x)))"

definition adaptive_avg_pool2d_shape :: "nat \<Rightarrow> shape \<Rightarrow> error + shape" where
  "adaptive_avg_pool2d_shape out x =
     (case x of
        [n, c, h, w] \<Rightarrow>
          (if c = 0 \<or> h = 0 \<or> w = 0 then Inl EmptyInput else Inr [n, c, out, out])
      | [c, h, w] \<Rightarrow>
          (if h = 0 \<or> w = 0 then Inl EmptyInput else Inr [c, out, out])
      | _ \<Rightarrow> Inl (RankError (length x)))"

text \<open>
  A linear layer multiplies along the last dimension, which must have \<open>in_features\<close>
  entries; otherwise the matrix product raises its shape-mismatch error.
\<close>

definition linear_shape :: "nat \<Rightarrow> nat \<Rightarrow> shape \<Rightarrow> error + shape" where
  "linear_shape fin fout x =
     (if x = [] then Inl (RankError 0)
      else if last x \<noteq> fin then Inl (MatMulShape (last x) fin)
      else Inr (butlast x @ [fout]))"

fun layer_shape :: "layer \<Rightarrow> shape \<Rightarrow> error + shape" where
  "layer_shape (Conv2d cin cout k s p g) x = conv2d_shape cin cout k s p x"
| "layer_shape ReLU x = Inr x"
| "layer_shape (MaxPool2d k s) x = maxpool2d_shape k s x"
| "layer_shape (Dropout p) x = Inr x"
| "layer_shape (Linear fin fout) x = linear_shape fin fout x"
| "layer_shape (AdaptiveAvgPool2d out) x = adaptive_avg_pool2d_shape out x"

text \<open>
  \<^verbatim>\<open>x.view(x.size(0), -1)\<close> keeps the first dimension and infers the second from
  the number of elements. When the first dimension is 0 the tensor has no elements and
  the framework refuses to infer the \<^verbatim>\<open>-1\<close> ("the unspecified dimension size -1 can be
  any value and is ambiguous"). A tensor without dimensions has no \<^verbatim>\<open>size(0)\<close>.
\<close>

definition view_flat :: "shape \<Rightarrow> error + shape" where
  "view_flat x =
     (case x of
        [] \<Rightarrow> Inl (RankError 0)
      | n # rest \<Rightarrow> (if n = 0 then Inl AmbiguousView else Inr [n, prod_list rest]))"


section \<open>Calling a layer: the state a forward pass can touch\<close>

text \<open>
  A module call in Python may mutate the module and the process. The state below holds
  what the operations of the framework can write: the weights of the model (all
  convolution and linear weights and biases, kept abstract as one value of type \<open>'w\<close>),
  the module's \<^verbatim>\<open>training\<close> flag, the number of draws taken from the random generator,
  and the files written to disk. Neither notebook calls \<^verbatim>\<open>eval()\<close>, so a model is in
  training mode when it is called and \<^verbatim>\<open>nn.Dropout\<close> draws a random mask.
\<close>

record 'w session =
  weights :: 'w
  training :: bool
  rng_draws :: nat
  saved_files :: "string list"

type_synonym 'w step = "shape \<Rightarrow> 'w session \<Rightarrow> 'w session \<times> (error + shape)"

definition call :: "layer \<Rightarrow> 'w step" where
  "call l x s =
     ((case l of
         Dropout p \<Rightarrow> (if training s then s\<lparr>rng_draws := rng_draws s + 1\<rparr> else s)
       | _ \<Rightarrow> s),
      layer_shape l x)"

text \<open>\<^verbatim>\<open>F.relu(x)\<close>, the functional form of \<^verbatim>\<open>nn.ReLU\<close>.\<close>

definition relu :: "'w step" where
  "relu x s = (s, Inr x)"

text \<open>The statement \<^verbatim>\<open>x = x.view(x.size(0), -1)\<close> as a step.\<close>

definition view_step :: "'w step" where
  "view_step x s = (s, view_flat x)"

text \<open>
  Straight-line code \<^verbatim>\<open>x = f0(x); x = f1(x); ...\<close> and \<^verbatim>\<open>nn.Sequential\<close> both feed
  the result of one step to the next and stop at the first exception. The error is
  returned with the position of the step that raised it.
\<close>

fun pipeline :: "'w step list \<Rightarrow> nat \<Rightarrow> shape \<Rightarrow> 'w session \<Rightarrow> 'w session \<times> ((nat \<times> error) + shape)" where
  "pipeline [] i x s = (s, Inr x)"
| "pipeline (f # fs) i x s =
     (case f x s of
        (s', Inl e) \<Rightarrow> (s', Inl (i, e))
      | (s', Inr y) \<Rightarrow> pipeline fs (Suc i) y s')"

definition Sequential_forward :: "layer list \<Rightarrow> shape \<Rightarrow> 'w session \<Rightarrow> 'w session \<times> ((nat \<times> error) + shape)" where
  "Sequential_forward ls = pipeline (map call ls) 0"

section \<open>VGG19 (notebook 1.0)\<close>

record vgg19 =
  feature_extractor :: "layer list"
  classifier :: "layer list"

definition VGG19 :: "nat \<Rightarrow> vgg19" where
  "VGG19 num_classes =
     \<lparr>feature_extractor =
        [Conv2d 3 64 3 1 1 1,
         ReLU,
         Conv2d 64 64 3 1 1 1,
         ReLU,
         MaxPool2d 2 2,
         Conv2d 64 128 3 1 1 1,
         ReLU,
         Conv2d 128 128 3 1 1 1,
         ReLU,
         MaxPool2d 2 2,
         Conv2d 128 256 3 1 1 1,
         ReLU,
         MaxPool2d 2 2,
         Conv2d 256 256 3 1 1 1,
         ReLU,
         Conv2d 256 256 3 1 1 1,
         ReLU,
         Conv2d 256 256 3 1 1 1,
         ReLU,
         MaxPool2d 2 2,
         Conv2d 256 512 3 1 1 1,
         ReLU,
         Conv2d 512 512 3 1 1 1,
         ReLU,
         Conv2d 512 512 3 1 1 1,
         ReLU,
         Conv2d 512 512 3 1 1 1,
         ReLU,
         MaxPool2d 2 2],
      classifier =
        [Linear (512 * 7 * 7) 4096,
         ReLU,
         Dropout (1 / 2),
         Linear 4096 4096,
         ReLU,
         Dropout (1 / 2),
         Linear 4096 num_classes]\<rparr>"

text \<open>
  \<^verbatim>\<open>VGG19.forward\<close>: the feature extractor, the flattening view, the classifier. The
  error says which of the three statements raised, and for a \<^verbatim>\<open>Sequential\<close> at which
  position.
\<close>

datatype vgg_error =
    InFeatureExtractor nat error
  | InView error
  | InClassifier nat error

definition VGG19_forward :: "vgg19 \<Rightarrow> shape \<Rightarrow> 'w session \<Rightarrow> 'w session \<times> (vgg_error + shape)" where
  "VGG19_forward self x s =
     (case Sequential_forward (feature_extractor self) x s of
        (s1, Inl (i, e)) \<Rightarrow> (s1, Inl (InFeatureExtractor i e))
      | (s1, Inr x1) \<Rightarrow>
          (case view_flat x1 of
             Inl e \<Rightarrow> (s1, Inl (InView e))
           | Inr x2 \<Rightarrow>
               (case Sequential_forward (classifier self) x2 s1 of
                  (s2, Inl (i, e)) \<Rightarrow> (s2, Inl (InClassifier i e))
                | (s2, Inr x3) \<Rightarrow> (s2, Inr x3))))"

section \<open>MobileNet (notebook 1.2)\<close>

record depthwise_separable_conv =
  depthwise :: layer
  pointwise :: layer

definition DepthwiseSeparableConv :: "nat \<Rightarrow> nat \<Rightarrow> nat \<Rightarrow> depthwise_separable_conv" where
  "DepthwiseSeparableConv cin cout strd =
     \<lparr>depthwise = Conv2d cin cin 3 strd 1 cin,
      pointwise = Conv2d cin cout 1 1 0 1\<rparr>"

definition DepthwiseSeparableConv_forward :: "depthwise_separable_conv \<Rightarrow> 'w step" where
  "DepthwiseSeparableConv_forward self x s =
     (case call (depthwise self) x s of
        (s1, Inl e) \<Rightarrow> (s1, Inl e)
      | (s1, Inr x1) \<Rightarrow> call (pointwise self) x1 s1)"

record mobilenet =
  conv1 :: layer
  dw_conv2 :: depthwise_separable_conv
  dw_conv3 :: depthwise_separable_conv
  dw_conv4 :: depthwise_separable_conv
  dw_conv5 :: depthwise_separable_conv
  dw_conv6 :: depthwise_separable_conv
  dw_conv7 :: depthwise_separable_conv
  dw_conv8 :: depthwise_separable_conv
  dw_conv9 :: depthwise_separable_conv
  dw_conv10 :: depthwise_separable_conv
  dw_conv11 :: depthwise_separable_conv
  dw_conv12 :: depthwise_separable_conv
  dw_conv13 :: depthwise_separable_conv
  dw_conv14 :: depthwise_separable_conv
  avg_pool :: layer
  fc :: layer

definition MobileNet :: "nat \<Rightarrow> mobilenet" where
  "MobileNet num_classes =
     \<lparr>conv1 = Conv2d 3 32 3 2 1 1,
      dw_conv2 = DepthwiseSeparableConv 32 64 1,
      dw_conv3 = DepthwiseSeparableConv 64 128 2,
      dw_conv4 = DepthwiseSeparableConv 128 128 1,
      dw_conv5 = DepthwiseSeparableConv 128 256 2,
      dw_conv6 = DepthwiseSeparableConv 256 256 1,
      dw_conv7 = DepthwiseSeparableConv 256 512 2,
      dw_conv8 = DepthwiseSeparableConv 512 512 1,
      dw_conv9 = DepthwiseSeparableConv 512 512 1,
      dw_conv10 = DepthwiseSeparableConv 512 512 1,
      dw_conv11 = DepthwiseSeparableConv 512 512 1,
      dw_conv12 = DepthwiseSeparableConv 512 512 1,
      dw_conv13 = DepthwiseSeparableConv 512 1024 2,
      dw_conv14 = DepthwiseSeparableConv 1024 1024 1,
      avg_pool = AdaptiveAvgPool2d 1,
      fc = Linear 1024 num_classes\<rparr>"

text \<open>
  The modules assigned under the comment \<^verbatim>\<open># MobileNet body\<close>, in the order of
  \<^verbatim>\<open>__init__\<close>.
\<close>

definition body :: "mobilenet \<Rightarrow> depthwise_separable_conv list" where
  "body self =
     [dw_conv2 self, dw_conv3 self, dw_conv4 self, dw_conv5 self, dw_conv6 self,
      dw_conv7 self, dw_conv8 self, dw_conv9 self, dw_conv10 self, dw_conv11 self,
      dw_conv12 self, dw_conv13 self, dw_conv14 self]"

text \<open>
  \<^verbatim>\<open>MobileNet.forward\<close> is straight-line code: the list of its statements, run as a
  pipeline. The error carries the position of the statement that raised (0 for
  \<^verbatim>\<open>self.conv1(x)\<close>, 29 for the view, 30 for \<^verbatim>\<open>self.fc(x)\<close>).
\<close>

definition MobileNet_steps :: "mobilenet \<Rightarrow> 'w step list" where
  "MobileNet_steps self =
     [call (conv1 self), relu,
      DepthwiseSeparableConv_forward (dw_conv2 self), relu,
      DepthwiseSeparableConv_forward (dw_conv3 self), relu,
      DepthwiseSeparableConv_forward (dw_conv4 self), relu,
      DepthwiseSeparableConv_forward (dw_conv5 self), relu,
      DepthwiseSeparableConv_forward (dw_conv6 self), relu,
      DepthwiseSeparableConv_forward (dw_conv7 self), relu,
      DepthwiseSeparableConv_forward (dw_conv8 self), relu,
      DepthwiseSeparableConv_forward (dw_conv9 self), relu,
      DepthwiseSeparableConv_forward (dw_conv10 self), relu,
      DepthwiseSeparableConv_forward (dw_conv11 self), relu,
      DepthwiseSeparableConv_forward (dw_conv12 self), relu,
      DepthwiseSeparableConv_forward (dw_conv13 self), relu,
      DepthwiseSeparableConv_forward (dw_conv14 self), relu,
      call (avg_pool self),
      view_step,
      call (fc self)]"

definition MobileNet_forward :: "mobilenet \<Rightarrow> shape \<Rightarrow> 'w session \<Rightarrow> 'w session \<times> ((nat \<times> error) + shape)" where
  "MobileNet_forward self = pipeline (MobileNet_steps self) 0"

text \<open>
  The statements of \<^verbatim>\<open>MobileNet.forward\<close> before \<^verbatim>\<open>x = self.fc(x)\<close>: their result is the
  flattened feature tensor the linear layer receives.
\<close>

definition MobileNet_flattened :: "mobilenet \<Rightarrow> shape \<Rightarrow> 'w session \<Rightarrow> 'w session \<times> ((nat \<times> error) + shape)" where
  "MobileNet_flattened self = pipeline (butlast (MobileNet_steps self)) 0"

section \<open>Parameters\<close>

text \<open>
  A convolution owns a weight of shape \<open>[out, in / groups, k, k]\<close> and a bias of shape
  \<open>[out]\<close>; a linear layer a weight of shape \<open>[out, in]\<close> and a bias of shape \<open>[out]\<close>; the
  other layers own nothing. The framework creates every parameter with
  \<^verbatim>\<open>requires_grad=True\<close>, and neither notebook changes that flag.
\<close>

record parameter =
  pshape :: shape
  requires_grad :: bool

definition numel :: "parameter \<Rightarrow> nat" where
  "numel p = prod_list (pshape p)"

fun layer_parameters :: "layer \<Rightarrow> parameter list" where
  "layer_parameters (Conv2d cin cout k s p g) =
     [\<lparr>pshape = [cout, cin div g, k, k], requires_grad = True\<rparr>,
      \<lparr>pshape = [cout], requires_grad = True\<rparr>]"
| "layer_parameters (Linear fin fout) =
     [\<lparr>pshape = [fout, fin], requires_grad = True\<rparr>,
      \<lparr>pshape = [fout], requires_grad = True\<rparr>]"
| "layer_parameters ReLU = []"
| "layer_parameters (MaxPool2d k s) = []"
| "layer_parameters (Dropout p) = []"
| "layer_parameters (AdaptiveAvgPool2d out) = []"

definition VGG19_parameters :: "vgg19 \<Rightarrow> parameter list" where
  "VGG19_parameters self =
     concat (map layer_parameters (feature_extractor self)) @
     concat (map layer_parameters (classifier self))"

definition DepthwiseSeparableConv_parameters :: "depthwise_separable_conv \<Rightarrow> parameter list" where
  "DepthwiseSeparableConv_parameters self =
     layer_parameters (depthwise self) @ layer_parameters (pointwise self)"

definition MobileNet_parameters :: "mobilenet \<Rightarrow> parameter list" where
  "MobileNet_parameters self =
     layer_parameters (conv1 self) @
     concat (map DepthwiseSeparableConv_parameters (body self)) @
     layer_parameters (avg_pool self) @
     layer_parameters (fc self)"

definition total_params :: "parameter list \<Rightarrow> nat" where
  "total_params ps = sum_list (map numel ps)"

definition trainable_params :: "parameter list \<Rightarrow> nat" where
  "trainable_params ps = sum_list (map numel (filter requires_grad ps))"

definition non_trainable_params :: "parameter list \<Rightarrow> nat" where
  "non_trainable_params ps = sum_list (map numel (filter (\<lambda>p. \<not> requires_grad p) ps))"


section \<open>Auxiliary definitions for the statements\<close>

text \<open>
  The shape a \<^verbatim>\<open>Sequential\<close> computes, without the state: the second component of
  \<open>Sequential_forward\<close> (lemma \<open>Sequential_forward_snd\<close> below).
\<close>

fun Sequential_shape :: "layer list \<Rightarrow> nat \<Rightarrow> shape \<Rightarrow> (nat \<times> error) + shape" where
  "Sequential_shape [] i x = Inr x"
| "Sequential_shape (l # ls) i x =
     (case layer_shape l x of
        Inl e \<Rightarrow> Inl (i, e)
      | Inr y \<Rightarrow> Sequential_shape ls (Suc i) y)"

text \<open>
  The output shape of every layer of a \<^verbatim>\<open>Sequential\<close> in turn, up to the first layer that
  raises: the column "Output Shape" of the summaries recorded in the notebooks.
\<close>

fun output_shapes :: "layer list \<Rightarrow> shape \<Rightarrow> shape list" where
  "output_shapes [] x = []"
| "output_shapes (l # ls) x =
     (case layer_shape l x of
        Inl e \<Rightarrow> []
      | Inr y \<Rightarrow> y # output_shapes ls y)"

text \<open>The column "Param #" of the summaries: the number of parameters of one layer.\<close>

definition param_count :: "layer \<Rightarrow> nat" where
  "param_count l = total_params (layer_parameters l)"

text \<open>
  The stages of a feature extractor: the layer list cut after every max-pooling layer.
  A stage is well formed when it is a non-empty run of convolution and ReLU pairs followed
  by one max-pooling layer with a 2x2 window.
\<close>

fun stages :: "layer list \<Rightarrow> layer list \<Rightarrow> layer list list" where
  "stages acc [] = (if acc = [] then [] else [acc])"
| "stages acc (l # ls) =
     (if is_MaxPool2d l then (acc @ [l]) # stages [] ls else stages (acc @ [l]) ls)"

fun conv_relu_pairs_then_pool :: "layer list \<Rightarrow> bool" where
  "conv_relu_pairs_then_pool [MaxPool2d k s] = (k = 2)"
| "conv_relu_pairs_then_pool (Conv2d cin cout k s p g # ReLU # rest) = conv_relu_pairs_then_pool rest"
| "conv_relu_pairs_then_pool ls = False"

definition well_formed_stage :: "layer list \<Rightarrow> bool" where
  "well_formed_stage st = (2 < length st \<and> conv_relu_pairs_then_pool st)"

definition stage_channels :: "layer list \<Rightarrow> nat list" where
  "stage_channels st = map out_channels (filter is_Conv2d st)"

text \<open>Layers that work on feature maps and keep the number of dimensions.\<close>

definition feature_layer :: "layer \<Rightarrow> bool" where
  "feature_layer l = (is_Conv2d l \<or> l = ReLU \<or> is_MaxPool2d l)"

section \<open>The notebooks as sequences of operations\<close>

text \<open>
  The code cells of a notebook that act on the model, in order. \<open>Instantiate w\<close> is
  \<^verbatim>\<open>model = VGG19()\<close> or \<^verbatim>\<open>model = MobileNet()\<close>, which draws the initial weights \<open>w\<close>;
  \<open>Summary x\<close> is the call of the summary utility, which runs one forward pass on a tensor
  of the given input size in evaluation mode and restores the mode afterwards;
  \<open>Forward x\<close> is \<^verbatim>\<open>model(torch.randn(x))\<close>; \<open>Inspect\<close> reads the output
  (\<^verbatim>\<open>output.shape\<close>, \<^verbatim>\<open>torch.argmax(output)\<close>). The last two constructors are operations
  the framework offers and neither notebook contains: an optimiser step, which replaces
  the weights, and saving the weights to a file.
\<close>

datatype 'w cell =
    Instantiate 'w
  | Summary shape
  | Forward shape
  | Inspect
  | OptimizerStep "'w \<Rightarrow> 'w"
  | SaveWeights string

fun run_cell :: "(shape \<Rightarrow> 'w session \<Rightarrow> 'w session \<times> 'r) \<Rightarrow> 'w cell \<Rightarrow> 'w session \<Rightarrow> 'w session" where
  "run_cell fwd (Instantiate w) s = s\<lparr>weights := w, training := True\<rparr>"
| "run_cell fwd (Summary x) s = (fst (fwd x (s\<lparr>training := False\<rparr>)))\<lparr>training := training s\<rparr>"
| "run_cell fwd (Forward x) s = fst (fwd x s)"
| "run_cell fwd Inspect s = s"
| "run_cell fwd (OptimizerStep upd) s = s\<lparr>weights := upd (weights s)\<rparr>"
| "run_cell fwd (SaveWeights path) s = s\<lparr>saved_files := path # saved_files s\<rparr>"

fun run_cells :: "(shape \<Rightarrow> 'w session \<Rightarrow> 'w session \<times> 'r) \<Rightarrow> 'w cell list \<Rightarrow> 'w session \<Rightarrow> 'w session" where
  "run_cells fwd [] s = s"
| "run_cells fwd (c # cs) s = run_cells fwd cs (run_cell fwd c s)"

definition vgg19_notebook :: "'w \<Rightarrow> 'w cell list" where
  "vgg19_notebook w = [Instantiate w, Summary [1, 3, 224, 224], Forward [1, 3, 224, 224]]"

definition mobilenet_notebook :: "'w \<Rightarrow> 'w cell list" where
  "mobilenet_notebook w =
     [Instantiate w, Summary [1, 3, 224, 224], Forward [1, 3, 224, 224], Inspect, Inspect]"

definition run_vgg19_notebook :: "'w \<Rightarrow> 'w session \<Rightarrow> 'w session" where
  "run_vgg19_notebook w = run_cells (VGG19_forward (VGG19 1000)) (vgg19_notebook w)"

definition run_mobilenet_notebook :: "'w \<Rightarrow> 'w session \<Rightarrow> 'w session" where
  "run_mobilenet_notebook w = run_cells (MobileNet_forward (MobileNet 1000)) (mobilenet_notebook w)"

text \<open>A session before any cell has run, with no weights to speak of.\<close>

definition fresh_session :: "unit session" where
  "fresh_session = \<lparr>weights = (), training = True, rng_draws = 0, saved_files = []\<rparr>"

section \<open>Basic facts about calls and pipelines\<close>

lemma window_out_pos [simp]: "0 < window_out n k s p"
  by (simp add: window_out_def)

lemma window_out_neq0 [simp]: "window_out n k s p \<noteq> 0"
  by (simp add: window_out_def)

lemma call_snd: "snd (call l x s) = layer_shape l x"
  by (simp add: call_def)

lemma call_weights: "weights (fst (call l x s)) = weights s"
  by (cases l) (simp_all add: call_def)

lemma call_saved_files: "saved_files (fst (call l x s)) = saved_files s"
  by (cases l) (simp_all add: call_def)

lemma call_Conv2d: "call (Conv2d cin cout k st p g) x s = (s, conv2d_shape cin cout k st p x)"
  by (simp add: call_def)

lemma pipeline_call_snd: "snd (pipeline (map call ls) i x s) = Sequential_shape ls i x"
proof (induction ls arbitrary: i x s)
  case Nil
  show ?case by simp
next
  case (Cons l ls)
  show ?case
  proof (cases "layer_shape l x")
    case (Inl e)
    then show ?thesis by (simp add: call_def)
  next
    case (Inr y)
    then show ?thesis using Cons.IH by (simp add: call_def)
  qed
qed

lemma Sequential_forward_snd: "snd (Sequential_forward ls x s) = Sequential_shape ls 0 x"
  by (simp add: Sequential_forward_def pipeline_call_snd)

text \<open>A pipeline of steps that leave a component of the state alone leaves it alone.\<close>

lemma pipeline_frame:
  assumes "\<And>f x s. f \<in> set fs \<Longrightarrow> obs (fst (f x s)) = obs s"
  shows "obs (fst (pipeline fs i x s)) = obs s"
  using assms
proof (induction fs arbitrary: i x s)
  case Nil
  show ?case by simp
next
  case (Cons f fs)
  have step: "obs (fst (f x s)) = obs s"
    using Cons.prems by simp
  have rest: "\<And>j y t. obs (fst (pipeline fs j y t)) = obs t"
    using Cons.IH Cons.prems by simp
  obtain s' r where fx: "f x s = (s', r)"
    by (cases "f x s")
  show ?case
  proof (cases r)
    case (Inl e)
    then show ?thesis using fx step by simp
  next
    case (Inr y)
    then show ?thesis using fx step rest [of "Suc i" y s'] by simp
  qed
qed

lemma Sequential_forward_weights: "weights (fst (Sequential_forward ls x s)) = weights s"
  unfolding Sequential_forward_def
  by (rule pipeline_frame) (auto simp: call_weights)

lemma Sequential_forward_saved_files: "saved_files (fst (Sequential_forward ls x s)) = saved_files s"
  unfolding Sequential_forward_def
  by (rule pipeline_frame) (auto simp: call_saved_files)


section \<open>Shapes through VGG19\<close>

lemma VGG19_forward_snd:
  "snd (VGG19_forward self x s) =
     (case Sequential_shape (feature_extractor self) 0 x of
        Inl (i, e) \<Rightarrow> Inl (InFeatureExtractor i e)
      | Inr x1 \<Rightarrow>
          (case view_flat x1 of
             Inl e \<Rightarrow> Inl (InView e)
           | Inr x2 \<Rightarrow>
               (case Sequential_shape (classifier self) 0 x2 of
                  Inl (i, e) \<Rightarrow> Inl (InClassifier i e)
                | Inr x3 \<Rightarrow> Inr x3)))"
proof -
  obtain s1 r1 where fe: "Sequential_forward (feature_extractor self) x s = (s1, r1)"
    by (cases "Sequential_forward (feature_extractor self) x s")
  have sh1: "Sequential_shape (feature_extractor self) 0 x = r1"
    using Sequential_forward_snd [of "feature_extractor self" x s] fe by simp
  show ?thesis
  proof (cases r1)
    case (Inl ie)
    obtain i e where "ie = (i, e)" by (cases ie)
    with Inl fe sh1 show ?thesis by (simp add: VGG19_forward_def)
  next
    case r1: (Inr x1)
    show ?thesis
    proof (cases "view_flat x1")
      case (Inl e)
      with r1 fe sh1 show ?thesis by (simp add: VGG19_forward_def)
    next
      case vf: (Inr x2)
      obtain s2 r2 where cl: "Sequential_forward (classifier self) x2 s1 = (s2, r2)"
        by (cases "Sequential_forward (classifier self) x2 s1")
      have sh2: "Sequential_shape (classifier self) 0 x2 = r2"
        using Sequential_forward_snd [of "classifier self" x2 s1] cl by simp
      show ?thesis
      proof (cases r2)
        case (Inl ie)
        obtain i e where "ie = (i, e)" by (cases ie)
        with Inl r1 vf fe sh1 cl sh2 show ?thesis by (simp add: VGG19_forward_def)
      next
        case (Inr x3)
        with r1 vf fe sh1 cl sh2 show ?thesis by (simp add: VGG19_forward_def)
      qed
    qed
  qed
qed

lemma feature_extractor_224:
  "Sequential_shape (feature_extractor (VGG19 C)) 0 [N, 3, 224, 224] = Inr [N, 512, 7, 7]"
  by (simp add: VGG19_def conv2d_shape_def maxpool2d_shape_def window_out_def)

lemma classifier_25088:
  "Sequential_shape (classifier (VGG19 C)) 0 [N, 25088] = Inr [N, C]"
  by (simp add: VGG19_def linear_shape_def)

lemma classifier_mismatch:
  "F \<noteq> 25088 \<Longrightarrow> Sequential_shape (classifier (VGG19 C)) 0 [N, F] = Inl (0, MatMulShape F 25088)"
  by (simp add: VGG19_def linear_shape_def)

lemma feature_layer_keeps_batch:
  "feature_layer l \<Longrightarrow> layer_shape l [n, c, h, w] = Inr y \<Longrightarrow> \<exists>c' h' w'. y = [n, c', h', w']"
proof (cases l)
  case (Conv2d cin cout k st p g)
  assume "layer_shape l [n, c, h, w] = Inr y"
  with Conv2d show ?thesis
    by (auto simp: conv2d_shape_def split: if_splits)
next
  case ReLU
  assume "layer_shape l [n, c, h, w] = Inr y"
  with ReLU have "y = [n, c, h, w]" by simp
  then show ?thesis by blast
next
  case (MaxPool2d k st)
  assume "layer_shape l [n, c, h, w] = Inr y"
  with MaxPool2d show ?thesis
    by (auto simp: maxpool2d_shape_def split: if_splits)
next
  case (Dropout p)
  assume "feature_layer l"
  with Dropout show ?thesis by (simp add: feature_layer_def)
next
  case (Linear fin fout)
  assume "feature_layer l"
  with Linear show ?thesis by (simp add: feature_layer_def)
next
  case (AdaptiveAvgPool2d out)
  assume "feature_layer l"
  with AdaptiveAvgPool2d show ?thesis by (simp add: feature_layer_def)
qed

lemma feature_layers_keep_batch:
  "list_all feature_layer ls \<Longrightarrow> Sequential_shape ls i [n, c, h, w] = Inr y
     \<Longrightarrow> \<exists>c' h' w'. y = [n, c', h', w']"
proof (induction ls arbitrary: i c h w)
  case Nil
  then have "y = [n, c, h, w]" by simp
  then show ?case by blast
next
  case (Cons l ls)
  from Cons.prems obtain z where z: "layer_shape l [n, c, h, w] = Inr z"
    and rest: "Sequential_shape ls (Suc i) z = Inr y"
    by (auto split: sum.splits)
  from Cons.prems(1) have fl: "feature_layer l" and fls: "list_all feature_layer ls"
    by simp_all
  from feature_layer_keeps_batch [OF fl z] obtain c' h' w' where "z = [n, c', h', w']"
    by blast
  with Cons.IH [OF fls] rest show ?case by blast
qed

lemma vgg19_feature_layers: "list_all feature_layer (feature_extractor (VGG19 C))"
  by (simp add: VGG19_def feature_layer_def)

lemma view_flat_4d: "view_flat [n, c, h, w] = Inr z \<Longrightarrow> 0 < n \<and> z = [n, c * h * w]"
  by (auto simp: view_flat_def split: if_splits)


section \<open>Shapes through MobileNet\<close>

lemma relu_eq: "relu x s = (s, Inr x)"
  by (simp add: relu_def)

lemma DepthwiseSeparableConv_forward_shape:
  assumes "0 < st" and "0 < h" and "0 < w"
  shows "DepthwiseSeparableConv_forward (DepthwiseSeparableConv cin cout st) [n, cin, h, w] s =
           (s, Inr [n, cout, window_out h 3 st 1, window_out w 3 st 1])"
proof -
  have dw: "call (Conv2d cin cin 3 st 1 cin) [n, cin, h, w] s =
              (s, Inr [n, cin, window_out h 3 st 1, window_out w 3 st 1])"
    using assms by (simp add: call_Conv2d conv2d_shape_def)
  have pw: "call (Conv2d cin cout 1 1 0 1) [n, cin, window_out h 3 st 1, window_out w 3 st 1] s =
              (s, Inr [n, cout, window_out h 3 st 1, window_out w 3 st 1])"
    by (simp add: call_Conv2d conv2d_shape_def Suc_le_eq) (simp add: window_out_def)
  show ?thesis
    by (simp only: DepthwiseSeparableConv_forward_def DepthwiseSeparableConv_def
        depthwise_separable_conv.select_convs dw pw prod.case sum.case)
qed

lemma MobileNet_flattened_run:
  assumes "0 < N" and "0 < H" and "0 < W"
  shows "MobileNet_flattened (MobileNet C) [N, 3, H, W] s = (s, Inr [N, 1024])"
  using assms
  by (simp add: MobileNet_flattened_def MobileNet_steps_def MobileNet_def relu_eq
      DepthwiseSeparableConv_forward_shape call_Conv2d conv2d_shape_def
      call_def adaptive_avg_pool2d_shape_def view_step_def view_flat_def)

lemma MobileNet_forward_run:
  assumes "0 < N" and "0 < H" and "0 < W"
  shows "MobileNet_forward (MobileNet C) [N, 3, H, W] s = (s, Inr [N, C])"
  using assms
  by (simp add: MobileNet_forward_def MobileNet_steps_def MobileNet_def relu_eq
      DepthwiseSeparableConv_forward_shape call_Conv2d conv2d_shape_def
      call_def adaptive_avg_pool2d_shape_def view_step_def view_flat_def linear_shape_def)


section \<open>Frame lemmas\<close>

lemma relu_frame: "obs (fst (relu x s)) = obs s"
  by (simp add: relu_def)

lemma view_step_frame: "obs (fst (view_step x s)) = obs s"
  by (simp add: view_step_def)

lemma DepthwiseSeparableConv_forward_frame:
  assumes "\<And>l x s. obs (fst (call l x s)) = obs s"
  shows "obs (fst (DepthwiseSeparableConv_forward self x s)) = obs s"
proof -
  obtain s1 r1 where dw: "call (depthwise self) x s = (s1, r1)"
    by (cases "call (depthwise self) x s")
  have s1: "obs s1 = obs s"
    using assms [of "depthwise self" x s] dw by simp
  show ?thesis
  proof (cases r1)
    case (Inl e)
    with dw s1 show ?thesis by (simp add: DepthwiseSeparableConv_forward_def)
  next
    case (Inr x1)
    with dw s1 assms [of "pointwise self" x1 s1] show ?thesis
      by (simp add: DepthwiseSeparableConv_forward_def)
  qed
qed

lemma MobileNet_forward_frame:
  assumes "\<And>l x s. obs (fst (call l x s)) = obs s"
  shows "obs (fst (MobileNet_forward self x s)) = obs s"
  unfolding MobileNet_forward_def
proof (rule pipeline_frame)
  fix f :: "'a step" and y t
  assume "f \<in> set (MobileNet_steps self)"
  then show "obs (fst (f y t)) = obs t"
    by (auto simp: MobileNet_steps_def assms relu_frame view_step_frame
        DepthwiseSeparableConv_forward_frame [of obs, OF assms])
qed

lemma VGG19_forward_frame:
  assumes "\<And>l x s. obs (fst (call l x s)) = obs s"
  shows "obs (fst (VGG19_forward self x s)) = obs s"
proof -
  have seq: "\<And>ls y t. obs (fst (Sequential_forward ls y t)) = obs t"
    unfolding Sequential_forward_def by (rule pipeline_frame) (auto simp: assms)
  obtain s1 r1 where fe: "Sequential_forward (feature_extractor self) x s = (s1, r1)"
    by (cases "Sequential_forward (feature_extractor self) x s")
  have s1: "obs s1 = obs s"
    using seq [of "feature_extractor self" x s] fe by simp
  show ?thesis
  proof (cases r1)
    case (Inl ie)
    obtain i e where "ie = (i, e)" by (cases ie)
    with Inl fe s1 show ?thesis by (simp add: VGG19_forward_def)
  next
    case r1: (Inr x1)
    show ?thesis
    proof (cases "view_flat x1")
      case (Inl e)
      with r1 fe s1 show ?thesis by (simp add: VGG19_forward_def)
    next
      case vf: (Inr x2)
      obtain s2 r2 where cl: "Sequential_forward (classifier self) x2 s1 = (s2, r2)"
        by (cases "Sequential_forward (classifier self) x2 s1")
      have s2: "obs s2 = obs s"
        using seq [of "classifier self" x2 s1] cl s1 by simp
      show ?thesis
      proof (cases r2)
        case (Inl ie)
        obtain i e where "ie = (i, e)" by (cases ie)
        with Inl r1 vf fe cl s2 show ?thesis by (simp add: VGG19_forward_def)
      next
        case (Inr x3)
        with r1 vf fe cl s2 show ?thesis by (simp add: VGG19_forward_def)
      qed
    qed
  qed
qed

lemma VGG19_forward_weights: "weights (fst (VGG19_forward self x s)) = weights s"
  by (rule VGG19_forward_frame) (rule call_weights)

lemma VGG19_forward_saved_files: "saved_files (fst (VGG19_forward self x s)) = saved_files s"
  by (rule VGG19_forward_frame) (rule call_saved_files)

lemma MobileNet_forward_weights: "weights (fst (MobileNet_forward self x s)) = weights s"
  by (rule MobileNet_forward_frame) (rule call_weights)

lemma MobileNet_forward_saved_files: "saved_files (fst (MobileNet_forward self x s)) = saved_files s"
  by (rule MobileNet_forward_frame) (rule call_saved_files)

section \<open>Agreement with the summaries recorded in the notebooks\<close>

text \<open>
  The notebooks keep the output of the summary utility for an input of shape
  \<open>[1, 3, 224, 224]\<close>. The shape rules and parameter counts above reproduce its columns
  "Output Shape" and "Param #" line by line.
\<close>

lemma vgg19_summary_feature_shapes:
  "output_shapes (feature_extractor (VGG19 1000)) [1, 3, 224, 224] =
     [[1, 64, 224, 224], [1, 64, 224, 224], [1, 64, 224, 224], [1, 64, 224, 224],
      [1, 64, 112, 112],
      [1, 128, 112, 112], [1, 128, 112, 112], [1, 128, 112, 112], [1, 128, 112, 112],
      [1, 128, 56, 56],
      [1, 256, 56, 56], [1, 256, 56, 56],
      [1, 256, 28, 28],
      [1, 256, 28, 28], [1, 256, 28, 28], [1, 256, 28, 28], [1, 256, 28, 28],
      [1, 256, 28, 28], [1, 256, 28, 28],
      [1, 256, 14, 14],
      [1, 512, 14, 14], [1, 512, 14, 14], [1, 512, 14, 14], [1, 512, 14, 14],
      [1, 512, 14, 14], [1, 512, 14, 14], [1, 512, 14, 14], [1, 512, 14, 14],
      [1, 512, 7, 7]]"
  by (simp add: VGG19_def conv2d_shape_def maxpool2d_shape_def window_out_def)

lemma vgg19_summary_classifier_shapes:
  "output_shapes (classifier (VGG19 1000)) [1, 25088] =
     [[1, 4096], [1, 4096], [1, 4096], [1, 4096], [1, 4096], [1, 4096], [1, 1000]]"
  by (simp add: VGG19_def linear_shape_def)

lemma vgg19_summary_param_counts:
  "map param_count (feature_extractor (VGG19 1000)) =
     [1792, 0, 36928, 0, 0, 73856, 0, 147584, 0, 0, 295168, 0, 0,
      590080, 0, 590080, 0, 590080, 0, 0,
      1180160, 0, 2359808, 0, 2359808, 0, 2359808, 0, 0]"
  "map param_count (classifier (VGG19 1000)) = [102764544, 0, 0, 16781312, 0, 0, 4097000]"
  by (simp_all add: VGG19_def param_count_def total_params_def numel_def)

lemma mobilenet_summary_param_counts:
  "param_count (conv1 (MobileNet 1000)) = 896"
  "map (\<lambda>d. (param_count (depthwise d), param_count (pointwise d))) (body (MobileNet 1000)) =
     [(320, 2112), (640, 8320), (1280, 16512), (1280, 33024), (2560, 65792), (2560, 131584),
      (5120, 262656), (5120, 262656), (5120, 262656), (5120, 262656), (5120, 262656),
      (5120, 525312), (10240, 1049600)]"
  "param_count (fc (MobileNet 1000)) = 1025000"
  by (simp_all add: MobileNet_def body_def DepthwiseSeparableConv_def param_count_def
      total_params_def numel_def)

lemma mobilenet_summary_shapes:
  "layer_shape (conv1 (MobileNet 1000)) [1, 3, 224, 224] = Inr [1, 32, 112, 112]"
  "output_shapes (concat (map (\<lambda>d. [depthwise d, pointwise d]) (body (MobileNet 1000))))
       [1, 32, 112, 112] =
     [[1, 32, 112, 112], [1, 64, 112, 112],
      [1, 64, 56, 56], [1, 128, 56, 56],
      [1, 128, 56, 56], [1, 128, 56, 56],
      [1, 128, 28, 28], [1, 256, 28, 28],
      [1, 256, 28, 28], [1, 256, 28, 28],
      [1, 256, 14, 14], [1, 512, 14, 14],
      [1, 512, 14, 14], [1, 512, 14, 14],
      [1, 512, 14, 14], [1, 512, 14, 14],
      [1, 512, 14, 14], [1, 512, 14, 14],
      [1, 512, 14, 14], [1, 512, 14, 14],
      [1, 512, 14, 14], [1, 512, 14, 14],
      [1, 512, 7, 7], [1, 1024, 7, 7],
      [1, 1024, 7, 7], [1, 1024, 7, 7]]"
  "layer_shape (avg_pool (MobileNet 1000)) [1, 1024, 7, 7] = Inr [1, 1024, 1, 1]"
  by (simp_all add: MobileNet_def body_def DepthwiseSeparableConv_def conv2d_shape_def
      adaptive_avg_pool2d_shape_def window_out_def)


section \<open>The claims\<close>

subsection \<open>VGG19: layers and stages\<close>

text \<open>
  C1. The notes of the notebook say that VGG19 has 19 hidden layers, 16 convolutional
  and 3 fully connected. The classifier does contain 3 linear layers, but the
  \<open>feature_extractor\<close> as written contains 12 convolutional layers, so the network has 15
  such layers, whatever the number of classes.
\<close>

theorem vgg19_layer_counts:
  "length (filter is_Conv2d (feature_extractor (VGG19 C))) = 12
   \<and> length (filter is_Linear (classifier (VGG19 C))) = 3
   \<and> length (filter is_Conv2d (feature_extractor (VGG19 C)))
       + length (filter is_Linear (classifier (VGG19 C))) = 15"
  by (simp add: VGG19_def)

text \<open>
  C2. Cut after each max-pooling layer, the \<open>feature_extractor\<close> has five stages, each a
  non-empty run of convolution and ReLU pairs closed by one 2x2 max-pooling layer. Their
  convolutions have 64, 128, 256, 256 and 512 output channels: the third stage holds a
  single convolution, the fourth stage still has 256 channels, and there is one stage of
  512 channels, not two as in the progression 64, 128, 256, 512, 512 of the notes.
\<close>

theorem vgg19_stage_channels:
  "map stage_channels (stages [] (feature_extractor (VGG19 C))) =
     [[64, 64], [128, 128], [256], [256, 256, 256], [512, 512, 512, 512]]
   \<and> map well_formed_stage (stages [] (feature_extractor (VGG19 C))) =
     [True, True, True, True, True]"
  by (simp add: VGG19_def stage_channels_def well_formed_stage_def)

text \<open>
  C3. Every convolutional layer of the \<open>feature_extractor\<close> of VGG19 has a 3x3 kernel,
  padding 1 and stride 1, and every max-pooling layer has a 2x2 window and stride 2.
\<close>

theorem vgg19_kernel_geometry:
  "l \<in> set (feature_extractor (VGG19 C)) \<Longrightarrow>
     (is_Conv2d l \<longrightarrow> kernel_size l = 3 \<and> padding l = 1 \<and> stride l = 1)
     \<and> (is_MaxPool2d l \<longrightarrow> kernel_size l = 2 \<and> stride l = 2)"
  by (auto simp: VGG19_def)

theorem vgg19_kernel_geometry_witness:
  "Conv2d 256 512 3 1 1 1 \<in> set (feature_extractor (VGG19 1000))
   \<and> is_Conv2d (Conv2d 256 512 3 1 1 1)
   \<and> kernel_size (Conv2d 256 512 3 1 1 1) = 3
   \<and> padding (Conv2d 256 512 3 1 1 1) = 1
   \<and> stride (Conv2d 256 512 3 1 1 1) = 1
   \<and> MaxPool2d 2 2 \<in> set (feature_extractor (VGG19 1000))
   \<and> is_MaxPool2d (MaxPool2d 2 2)
   \<and> kernel_size (MaxPool2d 2 2) = 2
   \<and> stride (MaxPool2d 2 2) = 2"
proof -
  have c: "Conv2d 256 512 3 1 1 1 \<in> set (feature_extractor (VGG19 1000))"
    by (simp add: VGG19_def)
  have p: "MaxPool2d 2 2 \<in> set (feature_extractor (VGG19 1000))"
    by (simp add: VGG19_def)
  show ?thesis
    using c p vgg19_kernel_geometry [OF c] vgg19_kernel_geometry [OF p] by simp
qed

subsection \<open>MobileNet: depthwise-separable convolutions\<close>

text \<open>
  C4. \<open>DepthwiseSeparableConv.forward\<close> is the pointwise convolution applied to the result
  of the depthwise convolution. The depthwise layer is a 3x3 convolution with padding 1
  whose groups and output channels both equal \<open>in_channels\<close>, so that it keeps the channel
  count; the pointwise layer is a 1x1 convolution with stride 1 and no padding from
  \<open>in_channels\<close> to \<open>out_channels\<close>, so that it keeps the spatial size. Every module of
  the body of MobileNet is such a pair.
\<close>

theorem depthwise_separable_conv_structure:
  "snd (DepthwiseSeparableConv_forward d x s) =
     (case layer_shape (depthwise d) x of
        Inl e \<Rightarrow> Inl e
      | Inr x1 \<Rightarrow> layer_shape (pointwise d) x1)
   \<and> depthwise (DepthwiseSeparableConv cin cout st) = Conv2d cin cin 3 st 1 cin
   \<and> pointwise (DepthwiseSeparableConv cin cout st) = Conv2d cin cout 1 1 0 1
   \<and> (0 < st \<longrightarrow> 0 < h \<longrightarrow> 0 < w \<longrightarrow>
        layer_shape (depthwise (DepthwiseSeparableConv cin cout st)) [n, cin, h, w] =
          Inr [n, cin, window_out h 3 st 1, window_out w 3 st 1])
   \<and> (0 < h \<longrightarrow> 0 < w \<longrightarrow>
        layer_shape (pointwise (DepthwiseSeparableConv cin cout st)) [n, cin, h, w] =
          Inr [n, cout, h, w])
   \<and> body (MobileNet C) =
        [DepthwiseSeparableConv 32 64 1, DepthwiseSeparableConv 64 128 2,
         DepthwiseSeparableConv 128 128 1, DepthwiseSeparableConv 128 256 2,
         DepthwiseSeparableConv 256 256 1, DepthwiseSeparableConv 256 512 2,
         DepthwiseSeparableConv 512 512 1, DepthwiseSeparableConv 512 512 1,
         DepthwiseSeparableConv 512 512 1, DepthwiseSeparableConv 512 512 1,
         DepthwiseSeparableConv 512 512 1, DepthwiseSeparableConv 512 1024 2,
         DepthwiseSeparableConv 1024 1024 1]"
proof (intro conjI impI)
  obtain s1 r1 where dw: "call (depthwise d) x s = (s1, r1)"
    by (cases "call (depthwise d) x s")
  have r1: "layer_shape (depthwise d) x = r1"
    using call_snd [of "depthwise d" x s] dw by simp
  show "snd (DepthwiseSeparableConv_forward d x s) =
     (case layer_shape (depthwise d) x of
        Inl e \<Rightarrow> Inl e
      | Inr x1 \<Rightarrow> layer_shape (pointwise d) x1)"
  proof (cases r1)
    case (Inl e)
    with dw r1 show ?thesis by (simp add: DepthwiseSeparableConv_forward_def)
  next
    case (Inr x1)
    with dw r1 call_snd [of "pointwise d" x1 s1] show ?thesis
      by (simp add: DepthwiseSeparableConv_forward_def)
  qed
next
  show "depthwise (DepthwiseSeparableConv cin cout st) = Conv2d cin cin 3 st 1 cin"
    by (simp add: DepthwiseSeparableConv_def)
next
  show "pointwise (DepthwiseSeparableConv cin cout st) = Conv2d cin cout 1 1 0 1"
    by (simp add: DepthwiseSeparableConv_def)
next
  assume "0 < st" and "0 < h" and "0 < w"
  then show "layer_shape (depthwise (DepthwiseSeparableConv cin cout st)) [n, cin, h, w] =
          Inr [n, cin, window_out h 3 st 1, window_out w 3 st 1]"
    by (simp add: DepthwiseSeparableConv_def conv2d_shape_def)
next
  assume "0 < h" and "0 < w"
  then show "layer_shape (pointwise (DepthwiseSeparableConv cin cout st)) [n, cin, h, w] =
          Inr [n, cout, h, w]"
    by (simp add: DepthwiseSeparableConv_def conv2d_shape_def window_out_def Suc_le_eq)
next
  show "body (MobileNet C) =
        [DepthwiseSeparableConv 32 64 1, DepthwiseSeparableConv 64 128 2,
         DepthwiseSeparableConv 128 128 1, DepthwiseSeparableConv 128 256 2,
         DepthwiseSeparableConv 256 256 1, DepthwiseSeparableConv 256 512 2,
         DepthwiseSeparableConv 512 512 1, DepthwiseSeparableConv 512 512 1,
         DepthwiseSeparableConv 512 512 1, DepthwiseSeparableConv 512 512 1,
         DepthwiseSeparableConv 512 512 1, DepthwiseSeparableConv 512 1024 2,
         DepthwiseSeparableConv 1024 1024 1]"
    by (simp add: body_def MobileNet_def)
qed

theorem depthwise_separable_conv_structure_witness:
  "(0::nat) < 2 \<and> (0::nat) < 112
   \<and> layer_shape (depthwise (DepthwiseSeparableConv 64 128 2)) [1, 64, 112, 112] =
       Inr [1, 64, 56, 56]
   \<and> layer_shape (pointwise (DepthwiseSeparableConv 64 128 2)) [1, 64, 56, 56] =
       Inr [1, 128, 56, 56]
   \<and> snd (DepthwiseSeparableConv_forward (DepthwiseSeparableConv 64 128 2) [1, 64, 112, 112]
         fresh_session) = Inr [1, 128, 56, 56]"
  using depthwise_separable_conv_structure
      [where d = "DepthwiseSeparableConv 64 128 2" and x = "[1, 64, 112, 112]"
         and s = fresh_session and cin = 64 and cout = 128 and st = 2 and h = 112 and w = 112
         and n = 1 and C = 1000]
    depthwise_separable_conv_structure
      [where d = "DepthwiseSeparableConv 64 128 2" and x = "[1, 64, 112, 112]"
         and s = fresh_session and cin = 64 and cout = 128 and st = 2 and h = 56 and w = 56
         and n = 1 and C = 1000]
  by (simp add: window_out_def DepthwiseSeparableConv_def conv2d_shape_def)

subsection \<open>Forward passes: shapes and errors\<close>

text \<open>
  C5. For every batch size \<open>N \<ge> 1\<close> and every number of classes \<open>C\<close>, the forward pass of
  \<open>VGG19 C\<close> on an input of shape \<open>[N, 3, 224, 224]\<close> returns a tensor of shape \<open>[N, C]\<close>
  (so \<open>[N, 1000]\<close> for the default): the \<open>feature_extractor\<close> produces \<open>[N, 512, 7, 7]\<close>,
  which the view flattens to \<open>[N, 25088]\<close>. For \<open>N = 0\<close> the view raises instead, as the
  theorem after the witness shows.
\<close>

theorem vgg19_forward_shape:
  "0 < N \<Longrightarrow>
     snd (Sequential_forward (feature_extractor (VGG19 C)) [N, 3, 224, 224] s) = Inr [N, 512, 7, 7]
     \<and> view_flat [N, 512, 7, 7] = Inr [N, 25088]
     \<and> snd (VGG19_forward (VGG19 C) [N, 3, 224, 224] s) = Inr [N, C]"
  by (simp add: Sequential_forward_snd VGG19_forward_snd feature_extractor_224 classifier_25088 view_flat_def)

theorem vgg19_forward_shape_witness:
  "(0::nat) < 4
   \<and> snd (Sequential_forward (feature_extractor (VGG19 1000)) [4, 3, 224, 224] fresh_session) =
       Inr [4, 512, 7, 7]
   \<and> view_flat [4, 512, 7, 7] = Inr [4, 25088]
   \<and> snd (VGG19_forward (VGG19 1000) [4, 3, 224, 224] fresh_session) = Inr [4, 1000]"
proof -
  have pos: "(0::nat) < 4" by simp
  show ?thesis
    using pos vgg19_forward_shape [OF pos, of 1000 fresh_session] by simp
qed

theorem vgg19_forward_empty_batch:
  "snd (VGG19_forward (VGG19 1000) [0, 3, 224, 224] fresh_session) = Inl (InView AmbiguousView)"
  by (simp add: VGG19_forward_snd feature_extractor_224 view_flat_def)

text \<open>
  C8. For every batch size \<open>N \<ge> 1\<close> and all spatial sizes \<open>H \<ge> 1\<close> and \<open>W \<ge> 1\<close>, the forward
  pass of MobileNet on an input of shape \<open>[N, 3, H, W]\<close> succeeds and returns a tensor of
  shape \<open>[N, C]\<close> for \<open>C\<close> classes, \<open>[N, 1000]\<close> for the default: after the adaptive average
  pooling the flattened tensor has shape \<open>[N, 1024]\<close> whatever the spatial size. For
  \<open>N = 0\<close> the view raises instead, as the theorem after the witness shows.
\<close>

theorem mobilenet_forward_shape:
  "0 < N \<Longrightarrow> 0 < H \<Longrightarrow> 0 < W \<Longrightarrow>
     snd (MobileNet_flattened (MobileNet C) [N, 3, H, W] s) = Inr [N, 1024]
     \<and> snd (MobileNet_forward (MobileNet C) [N, 3, H, W] s) = Inr [N, C]"
  by (simp add: MobileNet_flattened_run MobileNet_forward_run)

theorem mobilenet_forward_shape_witness:
  "(0::nat) < 2 \<and> (0::nat) < 1 \<and> (0::nat) < 37
   \<and> snd (MobileNet_flattened (MobileNet 1000) [2, 3, 1, 37] fresh_session) = Inr [2, 1024]
   \<and> snd (MobileNet_forward (MobileNet 1000) [2, 3, 1, 37] fresh_session) = Inr [2, 1000]"
proof -
  have n: "(0::nat) < 2" and h: "(0::nat) < 1" and w: "(0::nat) < 37" by simp_all
  show ?thesis
    using n h w mobilenet_forward_shape [OF n h w, of 1000 fresh_session] by simp
qed

theorem mobilenet_forward_empty_batch:
  "snd (MobileNet_forward (MobileNet 1000) [0, 3, 224, 224] fresh_session) =
     Inl (29, AmbiguousView)"
  by (simp add: MobileNet_forward_def MobileNet_steps_def MobileNet_def relu_eq
      DepthwiseSeparableConv_forward_shape call_Conv2d conv2d_shape_def
      call_def adaptive_avg_pool2d_shape_def view_step_def view_flat_def)

text \<open>
  C9. The forward pass of VGG19 on an input of shape \<open>[N, 3, H, W]\<close> succeeds only when the
  output of the \<open>feature_extractor\<close> flattens to \<open>[N, 25088]\<close>, that is 512 * 7 * 7 features
  per batch element. When the flattened tensor has another number \<open>F\<close> of features, the
  first linear layer of the classifier (position 0) raises the shape-mismatch error of
  the matrix product, and the forward pass returns that error and no tensor.
\<close>

theorem vgg19_forward_requires_25088:
  "(snd (VGG19_forward (VGG19 C) [N, 3, H, W] s) = Inr y \<longrightarrow>
      (\<exists>fe. snd (Sequential_forward (feature_extractor (VGG19 C)) [N, 3, H, W] s) = Inr fe
         \<and> view_flat fe = Inr [N, 25088]))
   \<and> (snd (Sequential_forward (feature_extractor (VGG19 C)) [N, 3, H, W] s) = Inr fe \<longrightarrow>
        view_flat fe = Inr [N, F] \<longrightarrow> F \<noteq> 25088 \<longrightarrow>
        snd (VGG19_forward (VGG19 C) [N, 3, H, W] s) = Inl (InClassifier 0 (MatMulShape F 25088)))"
proof (intro conjI impI)
  assume ok: "snd (VGG19_forward (VGG19 C) [N, 3, H, W] s) = Inr y"
  then obtain x1 x2 where x1: "Sequential_shape (feature_extractor (VGG19 C)) 0 [N, 3, H, W] = Inr x1"
    and x2: "view_flat x1 = Inr x2"
    and x3: "Sequential_shape (classifier (VGG19 C)) 0 x2 = Inr y"
    by (auto simp: VGG19_forward_snd split: sum.splits prod.splits)
  from feature_layers_keep_batch [OF vgg19_feature_layers x1]
  obtain c h w where fe: "x1 = [N, c, h, w]" by blast
  from view_flat_4d x2 fe have flat: "x2 = [N, c * h * w]" by blast
  have "c * h * w = 25088"
  proof (rule ccontr)
    assume "c * h * w \<noteq> 25088"
    from classifier_mismatch [OF this] x3 flat show False by simp
  qed
  with flat x1 x2
  show "\<exists>fe. snd (Sequential_forward (feature_extractor (VGG19 C)) [N, 3, H, W] s) = Inr fe
         \<and> view_flat fe = Inr [N, 25088]"
    by (simp add: Sequential_forward_snd)
next
  assume "snd (Sequential_forward (feature_extractor (VGG19 C)) [N, 3, H, W] s) = Inr fe"
    and "view_flat fe = Inr [N, F]" and "F \<noteq> 25088"
  then show "snd (VGG19_forward (VGG19 C) [N, 3, H, W] s) = Inl (InClassifier 0 (MatMulShape F 25088))"
    by (simp add: VGG19_forward_snd Sequential_forward_snd classifier_mismatch)
qed



theorem vgg19_forward_requires_25088_witness:
  "snd (VGG19_forward (VGG19 1000) [1, 3, 224, 224] fresh_session) = Inr [1, 1000]
   \<and> (\<exists>fe. snd (Sequential_forward (feature_extractor (VGG19 1000)) [1, 3, 224, 224]
               fresh_session) = Inr fe
         \<and> view_flat fe = Inr [1, 25088])
   \<and> snd (Sequential_forward (feature_extractor (VGG19 1000)) [1, 3, 64, 96] fresh_session) =
       Inr [1, 512, 2, 3]
   \<and> view_flat [1, 512, 2, 3] = Inr [1, 3072]
   \<and> (3072::nat) \<noteq> 25088
   \<and> snd (VGG19_forward (VGG19 1000) [1, 3, 64, 96] fresh_session) =
       Inl (InClassifier 0 (MatMulShape 3072 25088))"
proof -
  have ok: "snd (VGG19_forward (VGG19 1000) [1, 3, 224, 224] fresh_session) = Inr [1, 1000]"
    by (simp add: VGG19_forward_snd feature_extractor_224 classifier_25088 view_flat_def)
  have fe: "snd (Sequential_forward (feature_extractor (VGG19 1000)) [1, 3, 64, 96] fresh_session) =
       Inr [1, 512, 2, 3]"
    by (simp add: Sequential_forward_snd VGG19_def conv2d_shape_def maxpool2d_shape_def
        window_out_def)
  have vf: "view_flat [1, 512, 2, 3] = Inr [1, 3072]"
    by (simp add: view_flat_def)
  have ne: "(3072::nat) \<noteq> 25088" by simp
  show ?thesis
    using ok fe vf ne
      vgg19_forward_requires_25088 [of 1000 1 224 224 fresh_session "[1, 1000]"]
      vgg19_forward_requires_25088 [of 1000 1 64 96 fresh_session _ "[1, 512, 2, 3]" 3072]
    by simp
qed

subsection \<open>Parameters\<close>

text \<open>
  C6. \<open>MobileNet 1000\<close> has exactly 4,221,032 parameters and \<open>VGG19 1000\<close> exactly
  134,228,008, weights and biases of all layers together, and in both models every
  parameter is trainable.
\<close>

theorem parameter_totals:
  "total_params (MobileNet_parameters (MobileNet 1000)) = 4221032
   \<and> total_params (VGG19_parameters (VGG19 1000)) = 134228008
   \<and> trainable_params (MobileNet_parameters (MobileNet 1000)) = 4221032
   \<and> trainable_params (VGG19_parameters (VGG19 1000)) = 134228008
   \<and> filter (\<lambda>p. \<not> requires_grad p) (MobileNet_parameters (MobileNet 1000)) = []
   \<and> filter (\<lambda>p. \<not> requires_grad p) (VGG19_parameters (VGG19 1000)) = []
   \<and> non_trainable_params (MobileNet_parameters (MobileNet 1000)) = 0
   \<and> non_trainable_params (VGG19_parameters (VGG19 1000)) = 0"
  by (simp add: total_params_def trainable_params_def non_trainable_params_def numel_def
      MobileNet_parameters_def MobileNet_def body_def DepthwiseSeparableConv_parameters_def
      DepthwiseSeparableConv_def VGG19_parameters_def VGG19_def)

subsection \<open>Effects of a forward pass and of the notebooks\<close>

text \<open>
  C7. For both models a forward pass leaves the weights unchanged, on every input and
  from every state, whether it returns a tensor or raises. Running the cells of either
  notebook leaves the weights as the instantiation drew them and writes no file: no cell
  trains the model or saves weights.
\<close>

theorem forward_leaves_weights_unchanged:
  "weights (fst (VGG19_forward vgg x s)) = weights s
   \<and> weights (fst (MobileNet_forward mob x s)) = weights s
   \<and> weights (run_vgg19_notebook w s) = w
   \<and> saved_files (run_vgg19_notebook w s) = saved_files s
   \<and> weights (run_mobilenet_notebook w s) = w
   \<and> saved_files (run_mobilenet_notebook w s) = saved_files s"
  by (simp add: run_vgg19_notebook_def run_mobilenet_notebook_def vgg19_notebook_def
      mobilenet_notebook_def VGG19_forward_weights VGG19_forward_saved_files
      MobileNet_forward_weights MobileNet_forward_saved_files)

end
